theory Spec2Isabelle
  imports Main "HOL-Library.AList" "HOL-Library.Sublist"
begin

section \<open>The two stores and what the keystore can observe\<close>

text \<open>
  The keystore of \<^verbatim>\<open>src/src/index.ts\<close> (class \<^verbatim>\<open>Database\<close>) talks to two external
  services: a Redis server through \<^verbatim>\<open>this.client\<close> and a MySQL table through
  \<^verbatim>\<open>this.connection\<close>. Both are modelled by their contents:
  \<^item> the table as its rows \<open>(keyX, valueX)\<close>, in insertion order, \<open>keyX\<close> being
    \<^verbatim>\<open>UNIQUE\<close>;
  \<^item> the cache as its entries \<open>(key, (value, ttl))\<close>, the time to live being the
    number last given to \<^verbatim>\<open>EXPIRE\<close> (\<open>None\<close>: the entry does not expire). The
    passing of time, and with it the expiry of a positive time to live, is outside the
    model; a time to live that is not positive removes the entry at once.

  Every request to a service may fail (the promise rejects): which requests fail is the
  parameter \<open>fails\<close> of every operation. A request on a connection that was never
  established is one of those failures.
\<close>

type_synonym key = string
type_synonym val = string

datatype request =
    GET key
  | SET key val
  | EXPIRE key int
  | DEL "key list"
  | KEYS string
  | FLUSHALL
  | CONNECT
  | CREATE_CONNECTION
  | SQL_CONNECT
  | CREATE_TABLE
  | SELECT_VALUE key
  | UPSERT key val
  | DELETE_ROW key
  | SELECT_KEYS

type_synonym env = "request \<Rightarrow> bool"

datatype error =
    KeystoreError string
  | Failed request

datatype tier = SQL | REDIS

text \<open>
  The payloads of \<^verbatim>\<open>this.emit\<close>: \<^verbatim>\<open>{ key, value, on }\<close> for \<^verbatim>\<open>"get"\<close> (the value may
  be \<^verbatim>\<open>null\<close>) and \<^verbatim>\<open>"set"\<close>, \<^verbatim>\<open>{ key, on }\<close> for \<^verbatim>\<open>"delete"\<close>, nothing for
  \<^verbatim>\<open>"ready"\<close>.
\<close>

datatype event =
    EvGet key "val option" tier
  | EvSet key val tier
  | EvDelete key tier
  | EvReady

datatype log_entry =
    LogError error
  | LogKeys "key list"

datatype flush_type = FlushALL | FlushTEMP

datatype keys_arg = OneKey key | ManyKeys "key list"

text \<open>
  A call of an \<^verbatim>\<open>async\<close> function that the caller does not \<^verbatim>\<open>await\<close> starts a promise
  that settles later, after the caller has gone on. Such a call is recorded as a task in
  \<open>pending\<close>; \<open>settle\<close> below runs one of them. A rejection of a promise that nobody
  awaits lands in \<open>unhandled\<close>.
\<close>

datatype task =
    TInit
  | TSqlSet key val
  | TSqlDelete key
  | TRedisSet key val "int option"
  | TRedisDelete keys_arg
  | TRedisFlush flush_type
  | TKeysThen

record world =
  table :: "(key \<times> val) list"
  redis :: "(key \<times> val \<times> int option) list"
  emitted :: "event list"
  logged :: "log_entry list"
  pending :: "task list"
  timers :: "(int \<times> flush_type) list"
  unhandled :: "error list"

definition emit :: "event \<Rightarrow> world \<Rightarrow> world" where
  "emit e w = w\<lparr>emitted := emitted w @ [e]\<rparr>"

definition logger_error :: "error \<Rightarrow> world \<Rightarrow> world" where
  "logger_error e w = w\<lparr>logged := logged w @ [LogError e]\<rparr>"

definition logger_info :: "key list \<Rightarrow> world \<Rightarrow> world" where
  "logger_info ks w = w\<lparr>logged := logged w @ [LogKeys ks]\<rparr>"

definition spawn :: "task \<Rightarrow> world \<Rightarrow> world" where
  "spawn t w = w\<lparr>pending := pending w @ [t]\<rparr>"

definition reject :: "error \<Rightarrow> world \<Rightarrow> world" where
  "reject e w = w\<lparr>unhandled := unhandled w @ [e]\<rparr>"

subsection \<open>JavaScript truthiness\<close>

text \<open>
  \<^verbatim>\<open>if (x)\<close>, \<^verbatim>\<open>!x\<close> and \<^verbatim>\<open>x || d\<close> test truthiness: \<^verbatim>\<open>undefined\<close> and \<^verbatim>\<open>null\<close>
  (here \<open>None\<close>) are falsy, and so are the empty string and the number 0.
\<close>

definition truthy_str :: "string option \<Rightarrow> bool" where
  "truthy_str x = (case x of None \<Rightarrow> False | Some s \<Rightarrow> s \<noteq> [])"

definition truthy_num :: "int option \<Rightarrow> bool" where
  "truthy_num x = (case x of None \<Rightarrow> False | Some n \<Rightarrow> n \<noteq> 0)"

definition truthy_bool :: "bool option \<Rightarrow> bool" where
  "truthy_bool x = (case x of None \<Rightarrow> False | Some b \<Rightarrow> b)"

subsection \<open>The Redis client\<close>

text \<open>
  \<^verbatim>\<open>KEYS pattern\<close> matches glob patterns; of these the code uses \<^verbatim>\<open>temp:*\<close> only, so
  the matcher knows \<^verbatim>\<open>*\<close> (any run of characters) and literal characters.
\<close>

fun glob_match :: "string \<Rightarrow> string \<Rightarrow> bool" where
  "glob_match [] [] = True"
| "glob_match [] (c # s) = False"
| "glob_match (p # ps) [] = (p = CHR ''*'' \<and> glob_match ps [])"
| "glob_match (p # ps) (c # s) =
     (if p = CHR ''*'' then glob_match ps (c # s) \<or> glob_match (p # ps) s
      else p = c \<and> glob_match ps s)"

definition client_get :: "env \<Rightarrow> key \<Rightarrow> world \<Rightarrow> (error + val option) \<times> world" where
  "client_get fails k w =
     (if fails (GET k) then (Inl (Failed (GET k)), w)
      else (Inr (map_option fst (map_of (redis w) k)), w))"

text \<open>\<^verbatim>\<open>SET key value\<close> without options stores the value and drops a time to live.\<close>

definition client_set :: "env \<Rightarrow> key \<Rightarrow> val \<Rightarrow> world \<Rightarrow> (error + unit) \<times> world" where
  "client_set fails k v w =
     (if fails (SET k v) then (Inl (Failed (SET k v)), w)
      else (Inr (), w\<lparr>redis := AList.update k (v, None) (redis w)\<rparr>))"

text \<open>
  \<^verbatim>\<open>EXPIRE key n\<close> gives an existing key the time to live \<open>n\<close>; with a timeout that is
  not positive it deletes the key instead.
\<close>

definition client_expire :: "env \<Rightarrow> key \<Rightarrow> int \<Rightarrow> world \<Rightarrow> (error + unit) \<times> world" where
  "client_expire fails k n w =
     (if fails (EXPIRE k n) then (Inl (Failed (EXPIRE k n)), w)
      else if n \<le> 0 then (Inr (), w\<lparr>redis := AList.delete k (redis w)\<rparr>)
      else (Inr (), w\<lparr>redis := AList.map_entry k (\<lambda>e. (fst e, Some n)) (redis w)\<rparr>))"

text \<open>
  \<^verbatim>\<open>DEL\<close> answers with the number of keys it removed (the keys of the cache are
  distinct: \<^verbatim>\<open>SET\<close> replaces an entry in place).
\<close>

definition client_del :: "env \<Rightarrow> key list \<Rightarrow> world \<Rightarrow> (error + nat) \<times> world" where
  "client_del fails ks w =
     (if fails (DEL ks) then (Inl (Failed (DEL ks)), w)
      else (Inr (length [e \<leftarrow> redis w. fst e \<in> set ks]),
            w\<lparr>redis := [e \<leftarrow> redis w. fst e \<notin> set ks]\<rparr>))"

definition client_keys :: "env \<Rightarrow> string \<Rightarrow> world \<Rightarrow> (error + key list) \<times> world" where
  "client_keys fails pat w =
     (if fails (KEYS pat) then (Inl (Failed (KEYS pat)), w)
      else (Inr [k \<leftarrow> map fst (redis w). glob_match pat k], w))"

definition client_flushAll :: "env \<Rightarrow> world \<Rightarrow> (error + string) \<times> world" where
  "client_flushAll fails w =
     (if fails FLUSHALL then (Inl (Failed FLUSHALL), w)
      else (Inr ''OK'', w\<lparr>redis := []\<rparr>))"

subsection \<open>The MySQL connection\<close>

text \<open>The three statements that \<^verbatim>\<open>getSqlApi\<close> sends, and the one of \<^verbatim>\<open>getAllKeys\<close>.\<close>

definition query_select_value :: "env \<Rightarrow> key \<Rightarrow> world \<Rightarrow> (error + val list) \<times> world" where
  "query_select_value fails k w =
     (if fails (SELECT_VALUE k) then (Inl (Failed (SELECT_VALUE k)), w)
      else (Inr (map snd [r \<leftarrow> table w. fst r = k]), w))"

text \<open>\<^verbatim>\<open>INSERT ... ON DUPLICATE KEY UPDATE valueX = VALUES(valueX)\<close>\<close>

definition query_upsert :: "env \<Rightarrow> key \<Rightarrow> val \<Rightarrow> world \<Rightarrow> (error + unit) \<times> world" where
  "query_upsert fails k v w =
     (if fails (UPSERT k v) then (Inl (Failed (UPSERT k v)), w)
      else (Inr (), w\<lparr>table := AList.update k v (table w)\<rparr>))"

definition query_delete :: "env \<Rightarrow> key \<Rightarrow> world \<Rightarrow> (error + unit) \<times> world" where
  "query_delete fails k w =
     (if fails (DELETE_ROW k) then (Inl (Failed (DELETE_ROW k)), w)
      else (Inr (), w\<lparr>table := [r \<leftarrow> table w. fst r \<noteq> k]\<rparr>))"

definition query_select_keys :: "env \<Rightarrow> world \<Rightarrow> (error + key list) \<times> world" where
  "query_select_keys fails w =
     (if fails SELECT_KEYS then (Inl (Failed SELECT_KEYS), w)
      else (Inr (map fst (table w)), w))"

section \<open>The adapters\<close>

text \<open>
  Each adapter function is \<^verbatim>\<open>async\<close>: it returns a promise, which resolves to a value
  (\<open>Inr\<close>) or rejects with an error (\<open>Inl\<close>). An \<^verbatim>\<open>await\<close> of a rejected promise
  throws, so that outside a \<^verbatim>\<open>try\<close> the error becomes the rejection of the enclosing
  function. The trace lines written under \<^verbatim>\<open>this.debug\<close> are left out: they change no
  result, no store and no event.
\<close>

subsection \<open>\<^verbatim>\<open>getSqlApi\<close>\<close>

definition sql_get :: "env \<Rightarrow> key \<Rightarrow> world \<Rightarrow> (error + val option) \<times> world" where
  "sql_get fails key w =
     (case query_select_value fails key w of
        (Inl e, w1) \<Rightarrow> (Inl e, w1)
      | (Inr rows, w1) \<Rightarrow>
          (let value = (case rows of [] \<Rightarrow> None | valueX # _ \<Rightarrow> Some valueX)
           in (Inr value, emit (EvGet key value SQL) w1)))"

definition sql_set :: "env \<Rightarrow> key \<Rightarrow> val \<Rightarrow> world \<Rightarrow> (error + unit) \<times> world" where
  "sql_set fails key v w =
     (case query_upsert fails key v w of
        (Inl e, w1) \<Rightarrow> (Inl e, w1)
      | (Inr _, w1) \<Rightarrow> (Inr (), emit (EvSet key v SQL) w1))"

definition sql_delete :: "env \<Rightarrow> key \<Rightarrow> world \<Rightarrow> (error + unit) \<times> world" where
  "sql_delete fails key w =
     (case query_delete fails key w of
        (Inl e, w1) \<Rightarrow> (Inl e, w1)
      | (Inr _, w1) \<Rightarrow> (Inr (), emit (EvDelete key SQL) w1))"

definition sql_getAllKeys :: "env \<Rightarrow> world \<Rightarrow> (error + key list) \<times> world" where
  "sql_getAllKeys fails w = query_select_keys fails w"

subsection \<open>\<^verbatim>\<open>getRedisApi\<close>\<close>

text \<open>\<^verbatim>\<open>get\<close> and \<^verbatim>\<open>set\<close> wrap their body in \<^verbatim>\<open>try\<close>/\<^verbatim>\<open>catch\<close>; \<^verbatim>\<open>delete\<close> does not.\<close>

definition redis_get :: "env \<Rightarrow> key \<Rightarrow> world \<Rightarrow> (error + val option) \<times> world" where
  "redis_get fails key w =
     (case client_get fails key w of
        (Inl e, w1) \<Rightarrow> (Inr None, logger_error e w1)
      | (Inr value, w1) \<Rightarrow> (Inr value, emit (EvGet key value REDIS) w1))"

definition redis_set ::
  "env \<Rightarrow> key \<Rightarrow> val \<Rightarrow> int option \<Rightarrow> world \<Rightarrow> (error + bool) \<times> world" where
  "redis_set fails key v expire w =
     (case client_set fails key v w of
        (Inl e, w1) \<Rightarrow> (Inr False, logger_error e w1)
      | (Inr _, w1) \<Rightarrow>
          (let w2 = emit (EvSet key v REDIS) w1
           in case expire of
                None \<Rightarrow> (Inr True, w2)
              | Some n \<Rightarrow>
                  if n \<noteq> 0
                  then (case client_expire fails key n w2 of
                          (Inl e, w3) \<Rightarrow> (Inr False, logger_error e w3)
                        | (Inr _, w3) \<Rightarrow> (Inr True, w3))
                  else (Inr True, w2)))"

definition redis_delete :: "env \<Rightarrow> keys_arg \<Rightarrow> world \<Rightarrow> (error + nat) \<times> world" where
  "redis_delete fails keys w =
     (case keys of
        OneKey k \<Rightarrow> client_del fails [k] w
      | ManyKeys ks \<Rightarrow> client_del fails ks w)"

text \<open>
  \<^verbatim>\<open>flush("TEMP")\<close> starts \<^verbatim>\<open>this.client.keys("temp:*").then(...)\<close> and answers
  \<^verbatim>\<open>"ERR"\<close> at once; the callback given to \<^verbatim>\<open>then\<close> runs when the keys have arrived,
  and calls \<^verbatim>\<open>this.redis.delete(keys)\<close> without awaiting it.
\<close>

definition keys_then :: "env \<Rightarrow> world \<Rightarrow> (error + string option) \<times> world" where
  "keys_then fails w =
     (case client_keys fails ''temp:*'' w of
        (Inl e, w1) \<Rightarrow> (Inl e, w1)
      | (Inr keys, w1) \<Rightarrow>
          if length keys > 0
          then (Inr (Some ''OK''), spawn (TRedisDelete (ManyKeys keys)) (logger_info keys w1))
          else (Inr None, w1))"

definition redis_flush :: "env \<Rightarrow> flush_type \<Rightarrow> world \<Rightarrow> (error + string) \<times> world" where
  "redis_flush fails type w =
     (case type of
        FlushALL \<Rightarrow> client_flushAll fails w
      | FlushTEMP \<Rightarrow> (Inr ''ERR'', spawn TKeysThen w))"

section \<open>The keystore\<close>

record config =
  cfg_redisAutoFlushInterval :: "int option"
  cfg_redisAutoTempFlushInterval :: "int option"
  cfg_debug :: "bool option"
  cfg_sqlTable :: "string option"
  cfg_defaultExpire :: "int option"

record database =
  redisAutoFlushInterval :: "int option"
  redisAutoTempFlushInterval :: "int option"
  debug :: bool
  sqlTable :: string
  sqlURI :: "string option"
  defaultExpire :: int

definition doConfig :: "config option \<Rightarrow> database \<Rightarrow> database" where
  "doConfig cfg this =
     (case cfg of
        None \<Rightarrow> this
      | Some c \<Rightarrow>
          (let this1 = (if truthy_num (cfg_redisAutoFlushInterval c)
                        then this\<lparr>redisAutoFlushInterval := cfg_redisAutoFlushInterval c\<rparr>
                        else this);
               this2 = (case cfg_sqlTable c of
                          None \<Rightarrow> this1
                        | Some t \<Rightarrow> if t \<noteq> [] then this1\<lparr>sqlTable := t\<rparr> else this1);
               this3 = (if truthy_num (cfg_redisAutoTempFlushInterval c)
                        then this2\<lparr>redisAutoTempFlushInterval :=
                                     cfg_redisAutoTempFlushInterval c\<rparr>
                        else this2)
           in if truthy_bool (cfg_debug c) then this3\<lparr>debug := True\<rparr> else this3))"

text \<open>\<^verbatim>\<open>config?.defaultExpire || 60 * 60\<close>\<close>

definition or_default :: "int option \<Rightarrow> int \<Rightarrow> int" where
  "or_default x d = (case x of None \<Rightarrow> d | Some n \<Rightarrow> if n \<noteq> 0 then n else d)"

definition autoTempFlush :: "database \<Rightarrow> world \<Rightarrow> world" where
  "autoTempFlush this w =
     (case redisAutoTempFlushInterval this of
        None \<Rightarrow> w
      | Some n \<Rightarrow>
          if n \<noteq> 0
          then (if n = - 1 then w else w\<lparr>timers := timers w @ [(n, FlushTEMP)]\<rparr>)
          else w)"

definition autoFlush :: "database \<Rightarrow> world \<Rightarrow> world" where
  "autoFlush this w =
     (case redisAutoFlushInterval this of
        None \<Rightarrow> w
      | Some n \<Rightarrow>
          if n \<noteq> 0
          then (if n = - 1 then w else w\<lparr>timers := timers w @ [(n, FlushALL)]\<rparr>)
          else w)"

text \<open>
  \<^verbatim>\<open>init\<close> catches whatever its body throws, so its promise always resolves.
\<close>

definition init :: "env \<Rightarrow> database \<Rightarrow> world \<Rightarrow> (error + unit) \<times> world" where
  "init fails this w =
     (if fails CONNECT then (Inr (), logger_error (Failed CONNECT) w)
      else if fails CREATE_CONNECTION then (Inr (), logger_error (Failed CREATE_CONNECTION) w)
      else if fails SQL_CONNECT then (Inr (), logger_error (Failed SQL_CONNECT) w)
      else if fails CREATE_TABLE then (Inr (), logger_error (Failed CREATE_TABLE) w)
      else (Inr (), autoFlush this (autoTempFlush this (emit EvReady w))))"

text \<open>
  The constructor. It throws (\<open>Inl\<close>) or yields the object; \<^verbatim>\<open>this.init()\<close> is not
  awaited. The hooks that \<^verbatim>\<open>cleanup\<close> installs on the process, and \<^verbatim>\<open>closeDB\<close>, are
  outside the model.
\<close>

definition constructor ::
  "string option \<Rightarrow> string option \<Rightarrow> config option \<Rightarrow> world \<Rightarrow> error + database \<times> world" where
  "constructor redisURI sqlURI' cfg w =
     (let this0 = \<lparr>redisAutoFlushInterval = None, redisAutoTempFlushInterval = None,
                   debug = False, sqlTable = ''storekey'', sqlURI = None, defaultExpire = 0\<rparr>;
          this1 = doConfig cfg this0;
          this2 = this1\<lparr>defaultExpire :=
                    or_default (case cfg of None \<Rightarrow> None | Some c \<Rightarrow> cfg_defaultExpire c)
                      (60 * 60)\<rparr>;
          this3 = this2\<lparr>sqlURI := sqlURI'\<rparr>
      in if \<not> truthy_str redisURI
         then Inl (KeystoreError ''Keystore Error: No REDIS URI found!'')
         else if \<not> truthy_str sqlURI'
         then Inl (KeystoreError ''Keystore Error: No SQL URI found!'')
         else Inr (this3, spawn TInit w))"

subsection \<open>\<^verbatim>\<open>get\<close>, \<^verbatim>\<open>set\<close>, \<^verbatim>\<open>delete\<close>\<close>

text \<open>
  \<^verbatim>\<open>get\<close> awaits both reads and starts the cache write without awaiting it;
  \<^verbatim>\<open>set\<close> and \<^verbatim>\<open>delete\<close> await nothing.
\<close>

definition facade_get ::
  "env \<Rightarrow> database \<Rightarrow> key \<Rightarrow> world \<Rightarrow> (error + val option) \<times> world" where
  "facade_get fails this key w =
     (case redis_get fails key w of
        (Inl e, w1) \<Rightarrow> (Inl e, w1)
      | (Inr redisResponse, w1) \<Rightarrow>
          if truthy_str redisResponse then (Inr (Some key), w1)
          else (case sql_get fails key w1 of
                  (Inl e, w2) \<Rightarrow> (Inl e, w2)
                | (Inr None, w2) \<Rightarrow> (Inr None, w2)
                | (Inr (Some mySqlResponse), w2) \<Rightarrow>
                    if mySqlResponse \<noteq> []
                    then (Inr (Some mySqlResponse),
                          spawn (TRedisSet key mySqlResponse (Some (defaultExpire this))) w2)
                    else (Inr None, w2)))"

definition facade_set ::
  "database \<Rightarrow> key \<Rightarrow> val \<Rightarrow> world \<Rightarrow> (error + unit) \<times> world" where
  "facade_set this key v w =
     (Inr (), spawn (TRedisSet key v (Some (defaultExpire this))) (spawn (TSqlSet key v) w))"

definition facade_delete :: "database \<Rightarrow> key \<Rightarrow> world \<Rightarrow> (error + unit) \<times> world" where
  "facade_delete this key w =
     (Inr (), spawn (TRedisDelete (OneKey key)) (spawn (TSqlDelete key) w))"

section \<open>Promises that nobody awaits, and timers\<close>

text \<open>
  \<open>detach\<close> is what becomes of a promise without an \<^verbatim>\<open>await\<close>: its value is dropped,
  its rejection is unhandled. \<open>settle i\<close> runs the \<open>i\<close>-th pending task to its end,
  in one piece; tasks may settle in any order, the two stores being separate services.
  \<open>settle_all n\<close> settles up to \<open>n\<close> tasks, oldest first. \<open>fire i\<close> is one tick of the
  \<open>i\<close>-th timer set by \<^verbatim>\<open>setInterval\<close>. The calls that a function does await run one
  after the other within it; what other promises do in between is not followed.
\<close>

definition detach :: "(error + 'a) \<times> world \<Rightarrow> world" where
  "detach rw = (case rw of (Inl e, w) \<Rightarrow> reject e w | (Inr _, w) \<Rightarrow> w)"

definition run_task :: "env \<Rightarrow> database \<Rightarrow> task \<Rightarrow> world \<Rightarrow> world" where
  "run_task fails this t w =
     (case t of
        TInit \<Rightarrow> detach (init fails this w)
      | TSqlSet k v \<Rightarrow> detach (sql_set fails k v w)
      | TSqlDelete k \<Rightarrow> detach (sql_delete fails k w)
      | TRedisSet k v expire \<Rightarrow> detach (redis_set fails k v expire w)
      | TRedisDelete keys \<Rightarrow> detach (redis_delete fails keys w)
      | TRedisFlush type \<Rightarrow> detach (redis_flush fails type w)
      | TKeysThen \<Rightarrow> detach (keys_then fails w))"

definition settle :: "env \<Rightarrow> database \<Rightarrow> nat \<Rightarrow> world \<Rightarrow> world" where
  "settle fails this i w =
     (if i < length (pending w)
      then run_task fails this (pending w ! i)
             (w\<lparr>pending := take i (pending w) @ drop (Suc i) (pending w)\<rparr>)
      else w)"

fun settle_all :: "env \<Rightarrow> database \<Rightarrow> nat \<Rightarrow> world \<Rightarrow> world" where
  "settle_all fails this 0 w = w"
| "settle_all fails this (Suc n) w =
     (if pending w = [] then w else settle_all fails this n (settle fails this 0 w))"

definition fire :: "nat \<Rightarrow> world \<Rightarrow> world" where
  "fire i w = (if i < length (timers w) then spawn (TRedisFlush (snd (timers w ! i))) w else w)"

section \<open>Concrete inputs\<close>

text \<open>
  An environment in which no request fails, one in which every request fails and one in
  which a single request fails; a world in which both stores are empty and nothing has
  happened yet; and the object that the constructor builds when it is given two addresses
  and no \<^verbatim>\<open>config\<close>.
\<close>

definition no_failure :: env where
  "no_failure r = False"

definition all_fail :: env where
  "all_fail r = True"

definition only :: "request \<Rightarrow> env" where
  "only q r = (r = q)"

definition empty_world :: world where
  "empty_world = \<lparr>table = [], redis = [], emitted = [], logged = [], pending = [],
                   timers = [], unhandled = []\<rparr>"

definition default_db :: database where
  "default_db = \<lparr>redisAutoFlushInterval = None, redisAutoTempFlushInterval = None,
                  debug = False, sqlTable = ''storekey'', sqlURI = Some ''mysql://store'',
                  defaultExpire = 3600\<rparr>"

text \<open>
  A \<^verbatim>\<open>config\<close> that sets \<^verbatim>\<open>defaultExpire\<close> to 0 and nothing else, and a keystore whose
  temporary flush runs every 3600 milliseconds.
\<close>

definition zero_expire_config :: config where
  "zero_expire_config = \<lparr>cfg_redisAutoFlushInterval = None,
                          cfg_redisAutoTempFlushInterval = None, cfg_debug = None,
                          cfg_sqlTable = None, cfg_defaultExpire = Some 0\<rparr>"

definition temp_db :: database where
  "temp_db = default_db\<lparr>redisAutoTempFlushInterval := Some 3600\<rparr>"

text \<open>
  A \<^verbatim>\<open>config\<close> with a negative \<^verbatim>\<open>defaultExpire\<close>, which the constructor keeps, and the
  keystore built from it.
\<close>

definition negative_expire_config :: config where
  "negative_expire_config = \<lparr>cfg_redisAutoFlushInterval = None,
                              cfg_redisAutoTempFlushInterval = None, cfg_debug = None,
                              cfg_sqlTable = None, cfg_defaultExpire = Some (- 5)\<rparr>"

definition negative_expire_db :: database where
  "negative_expire_db = default_db\<lparr>defaultExpire := - 5\<rparr>"

section \<open>Facts about the stores\<close>

lemma glob_star: "glob_match ''*'' s"
  by (induction s) auto

lemma glob_literal_star:
  "CHR ''*'' \<notin> set lits \<Longrightarrow> glob_match (lits @ ''*'') s = prefix lits s"
proof (induction lits arbitrary: s)
  case Nil
  then show ?case by (simp add: glob_star)
next
  case (Cons c lits)
  then show ?case by (cases s) auto
qed

lemma glob_temp: "glob_match ''temp:*'' k = prefix ''temp:'' k"
  using glob_literal_star [of "''temp:''" k] by simp

lemma first_row:
  "(case map snd [r \<leftarrow> xs. fst r = k] of [] \<Rightarrow> None | v # _ \<Rightarrow> Some v) = map_of xs k"
  by (induction xs) auto

lemma settle_spawned:
  "settle fails this (length (pending w)) (spawn t w) = run_task fails this t w"
  by (simp add: settle_def spawn_def)

lemma constructor_default:
  "constructor (Some ''redis://cache'') (Some ''mysql://store'') None w
     = Inr (default_db, spawn TInit w)"
  by (simp add: constructor_def doConfig_def or_default_def truthy_str_def default_db_def)

lemmas effect_defs = emit_def logger_error_def logger_info_def spawn_def reject_def

lemmas task_defs = settle_def run_task_def detach_def sql_set_def sql_delete_def
  query_upsert_def query_delete_def redis_set_def redis_delete_def client_set_def
  client_expire_def client_del_def effect_defs

lemmas get_defs = facade_get_def redis_get_def client_get_def sql_get_def
  query_select_value_def truthy_str_def

text \<open>
  What the cache holds for the key once \<^verbatim>\<open>redis.set\<close> has run: the entry with its time to
  live, or nothing when the time to live is negative and \<^verbatim>\<open>EXPIRE\<close> has removed the entry.
\<close>

lemma cache_entry_after_set_task:
  "\<not> fails (SET k v) \<Longrightarrow> \<not> fails (EXPIRE k n) \<Longrightarrow> n \<noteq> 0 \<Longrightarrow>
   map_of (redis (snd (redis_set fails k v (Some n) w))) k
     = (if 0 < n then Some (v, Some n) else None)"
  by (auto simp add: redis_set_def client_set_def client_expire_def emit_def logger_error_def
      AList.update_conv' AList.map_of_map_entry AList.delete_conv' Let_def
      split: option.splits)

lemma cache_value_after_set_task:
  "\<not> fails (SET k v) \<Longrightarrow>
   map_option fst (map_of (redis (snd (redis_set fails k v (Some n) w))) k)
     = (if n < 0 \<and> \<not> fails (EXPIRE k n) then None else Some v)"
  by (auto simp add: redis_set_def client_set_def client_expire_def emit_def logger_error_def
      AList.update_conv' AList.map_of_map_entry AList.delete_conv' Let_def
      split: option.splits)

lemma table_after_set:
  "\<not> fails (UPSERT k v) \<Longrightarrow> pending w = [] \<Longrightarrow>
   map_of (table (settle_all fails this 2 (snd (facade_set this k v w)))) k = Some v"
  by (simp add: numeral_2_eq_2 facade_set_def task_defs AList.update_conv'
      AList.map_of_map_entry Let_def split: option.splits)

text \<open>
  What \<^verbatim>\<open>get\<close> does when the cache has nothing for the key (or cannot be read) and the
  table has a non-empty value.
\<close>

lemma get_cache_miss:
  "map_of (redis w) k = None \<Longrightarrow> map_of (table w) k = Some v \<Longrightarrow> v \<noteq> [] \<Longrightarrow>
   \<not> fails (SELECT_VALUE k) \<Longrightarrow>
   facade_get fails this k w =
     (Inr (Some v),
      spawn (TRedisSet k v (Some (defaultExpire this)))
        (emit (EvGet k (Some v) SQL)
           (if fails (GET k) then logger_error (Failed (GET k)) w
            else emit (EvGet k None REDIS) w)))"
  by (simp add: facade_get_def redis_get_def client_get_def sql_get_def
      query_select_value_def truthy_str_def first_row emit_def logger_error_def Let_def)

subsection \<open>The constructor's time to live\<close>

lemma constructor_defaultExpire:
  "constructor redisURI sqlURI' cfg w0 = Inr (this, w1) \<Longrightarrow>
   defaultExpire this =
     (case cfg of
        None \<Rightarrow> 3600
      | Some c \<Rightarrow> (case cfg_defaultExpire c of
                     None \<Rightarrow> 3600
                   | Some n \<Rightarrow> if n = 0 then 3600 else n))"
  by (auto simp add: constructor_def or_default_def Let_def split: option.splits if_splits)

lemma constructor_defaultExpire_nonzero:
  "constructor redisURI sqlURI' cfg w0 = Inr (this, w1) \<Longrightarrow> defaultExpire this \<noteq> 0"
  by (auto simp add: constructor_def or_default_def Let_def split: option.splits if_splits)

lemma constructor_zero_expire:
  "constructor (Some ''redis://cache'') (Some ''mysql://store'') (Some zero_expire_config) w
     = Inr (default_db, spawn TInit w)"
  by (simp add: constructor_def doConfig_def or_default_def truthy_str_def truthy_num_def
      truthy_bool_def default_db_def zero_expire_config_def)

lemma constructor_negative_expire:
  "constructor (Some ''redis://cache'') (Some ''mysql://store'') (Some negative_expire_config) w
     = Inr (negative_expire_db, spawn TInit w)"
  by (simp add: constructor_def doConfig_def or_default_def truthy_str_def truthy_num_def
      truthy_bool_def default_db_def negative_expire_config_def negative_expire_db_def)

subsection \<open>Settling the cache write\<close>

lemma run_redis_set_entry:
  "\<not> fails (SET k v) \<Longrightarrow> \<not> fails (EXPIRE k n) \<Longrightarrow> n \<noteq> 0 \<Longrightarrow>
   map_of (redis (run_task fails this (TRedisSet k v (Some n)) w)) k
     = (if 0 < n then Some (v, Some n) else None)"
  using cache_entry_after_set_task [of fails k v n w]
  by (auto simp add: run_task_def detach_def reject_def split: prod.splits sum.splits)

lemma run_redis_set_value:
  "\<not> fails (SET k v) \<Longrightarrow>
   map_option fst (map_of (redis (run_task fails this (TRedisSet k v (Some n)) w)) k)
     = (if n < 0 \<and> \<not> fails (EXPIRE k n) then None else Some v)"
  using cache_value_after_set_task [of fails k v n w]
  by (auto simp add: run_task_def detach_def reject_def split: prod.splits sum.splits)

text \<open>A failing \<^verbatim>\<open>EXPIRE\<close> is caught like a failing \<^verbatim>\<open>SET\<close>: logged, and the answer is \<^verbatim>\<open>false\<close>.\<close>

lemma redis_expire_caught:
  "\<not> fails (SET k v) \<Longrightarrow> n \<noteq> 0 \<Longrightarrow> fails (EXPIRE k n) \<Longrightarrow>
   fst (redis_set fails k v (Some n) w) = Inr False
   \<and> logged (snd (redis_set fails k v (Some n) w)) = logged w @ [LogError (Failed (EXPIRE k n))]"
  by (simp add: redis_set_def client_set_def client_expire_def emit_def logger_error_def Let_def)

lemma redis_adapter_resolves:
  "\<exists>r. fst (redis_get fails k w) = Inr r"
  "\<exists>b. fst (redis_set fails k v expire w) = Inr b"
  by (auto simp add: redis_get_def redis_set_def client_get_def client_set_def
      client_expire_def Let_def split: option.splits)

lemma settle_get_cache_miss:
  "map_of (redis w) k = None \<Longrightarrow> map_of (table w) k = Some v \<Longrightarrow> v \<noteq> [] \<Longrightarrow>
   \<not> fails (SELECT_VALUE k) \<Longrightarrow>
   settle fails this (length (pending w)) (snd (facade_get fails this k w))
     = run_task fails this (TRedisSet k v (Some (defaultExpire this)))
         (emit (EvGet k (Some v) SQL)
            (if fails (GET k) then logger_error (Failed (GET k)) w
             else emit (EvGet k None REDIS) w))"
  by (simp add: get_cache_miss settle_def effect_defs)

lemma settle_nothing: "settle fails this (length (pending w)) w = w"
  by (simp add: settle_def)

subsection \<open>Errors caught and errors let through\<close>

lemma redis_get_caught:
  "fails (GET k) \<Longrightarrow> redis_get fails k w = (Inr None, logger_error (Failed (GET k)) w)"
  by (simp add: redis_get_def client_get_def)

lemma redis_set_caught:
  "fails (SET k v) \<Longrightarrow>
   redis_set fails k v expire w = (Inr False, logger_error (Failed (SET k v)) w)"
  by (simp add: redis_set_def client_set_def)

lemma get_survives_cache_failure:
  "fails (GET k) \<Longrightarrow> \<not> fails (SELECT_VALUE k) \<Longrightarrow>
   \<exists>r. fst (facade_get fails this k w) = Inr r"
  by (auto simp add: get_defs effect_defs Let_def split: option.splits list.splits)

lemma get_rejects_on_durable_failure:
  "fails (SELECT_VALUE k) \<Longrightarrow> map_of (redis w) k = None \<Longrightarrow>
   fst (facade_get fails this k w) = Inl (Failed (SELECT_VALUE k))"
  by (auto simp add: get_defs effect_defs Let_def split: option.splits list.splits)

text \<open>A request that fails in a call nobody awaits: the rejection is unhandled.\<close>

lemma unawaited_failures:
  "fails (UPSERT k v) \<Longrightarrow>
     run_task fails this (TSqlSet k v) w = reject (Failed (UPSERT k v)) w"
  "fails (DELETE_ROW k) \<Longrightarrow>
     run_task fails this (TSqlDelete k) w = reject (Failed (DELETE_ROW k)) w"
  "fails (DEL [k]) \<Longrightarrow>
     run_task fails this (TRedisDelete (OneKey k)) w = reject (Failed (DEL [k])) w"
  by (simp_all add: run_task_def detach_def sql_set_def sql_delete_def redis_delete_def
      query_upsert_def query_delete_def client_del_def)

subsection \<open>The steps of the temporary flush\<close>

lemma glob_temp_fun: "glob_match ''temp:*'' = prefix ''temp:''"
  by (rule ext) (rule glob_temp)

lemma del_listed_keys:
  "[e \<leftarrow> xs. fst e \<notin> set [k \<leftarrow> map fst xs. P k]] = [e \<leftarrow> xs. \<not> P (fst e)]"
  by (rule filter_cong) auto

lemma run_flush_temp:
  "run_task fails this (TRedisFlush FlushTEMP) w = spawn TKeysThen w"
  by (simp add: run_task_def detach_def redis_flush_def)

lemma run_keys_then:
  "\<not> fails (KEYS ''temp:*'') \<Longrightarrow>
   run_task fails this TKeysThen w =
     (if length [k \<leftarrow> map fst (redis w). prefix ''temp:'' k] > 0
      then spawn (TRedisDelete (ManyKeys [k \<leftarrow> map fst (redis w). prefix ''temp:'' k]))
             (logger_info [k \<leftarrow> map fst (redis w). prefix ''temp:'' k] w)
      else w)"
  by (simp add: run_task_def detach_def keys_then_def client_keys_def glob_temp_fun)

lemma run_redis_delete_many:
  "\<not> fails (DEL ks) \<Longrightarrow>
   redis (run_task fails this (TRedisDelete (ManyKeys ks)) w) = [e \<leftarrow> redis w. fst e \<notin> set ks]"
  by (simp add: run_task_def detach_def redis_delete_def client_del_def)

text \<open>
  One run of \<^verbatim>\<open>flush("TEMP")\<close>, followed to its end: the call, then the callback of
  \<^verbatim>\<open>keys("temp:*")\<close>, then the \<^verbatim>\<open>delete\<close> that the callback starts.
\<close>

lemma temp_flush_settled:
  assumes keys: "\<not> fails (KEYS ''temp:*'')"
    and del: "\<not> fails (DEL [k \<leftarrow> map fst (redis w). prefix ''temp:'' k])"
  shows "redis (settle fails this (length (pending w))
                  (settle fails this (length (pending w))
                     (run_task fails this (TRedisFlush FlushTEMP) w)))
           = [e \<leftarrow> redis w. \<not> prefix ''temp:'' (fst e)]"
proof -
  let ?ks = "[k \<leftarrow> map fst (redis w). prefix ''temp:'' k]"
  let ?i = "length (pending w)"
  have first: "settle fails this ?i (run_task fails this (TRedisFlush FlushTEMP) w)
                 = run_task fails this TKeysThen w"
    by (simp only: run_flush_temp settle_spawned)
  have removed: "[e \<leftarrow> redis w. fst e \<notin> set ?ks] = [e \<leftarrow> redis w. \<not> prefix ''temp:'' (fst e)]"
    by (rule del_listed_keys)
  have rk: "run_task fails this TKeysThen w =
              (if length ?ks > 0
               then spawn (TRedisDelete (ManyKeys ?ks)) (logger_info ?ks w)
               else w)"
    using keys by (rule run_keys_then)
  show ?thesis
  proof (cases "?ks = []")
    case True
    have neg: "\<not> length ?ks > 0"
      unfolding True by simp
    have "run_task fails this TKeysThen w = w"
      by (rule trans [OF rk if_not_P [OF neg]])
    then have "settle fails this ?i (run_task fails this TKeysThen w) = w"
      by (simp only: settle_nothing)
    moreover have "[e \<leftarrow> redis w. fst e \<notin> set ?ks] = redis w"
      unfolding True by simp
    ultimately show ?thesis
      using removed by (simp only: first)
  next
    case False
    let ?w = "logger_info ?ks w"
    have same: "pending ?w = pending w" and cache: "redis ?w = redis w"
      by (simp_all add: logger_info_def)
    have pos: "length ?ks > 0"
      using False by (simp only: length_greater_0_conv not_False_eq_True)
    have "run_task fails this TKeysThen w = spawn (TRedisDelete (ManyKeys ?ks)) ?w"
      by (rule trans [OF rk if_P [OF pos]])
    then have "settle fails this ?i (run_task fails this TKeysThen w)
                 = settle fails this (length (pending ?w))
                     (spawn (TRedisDelete (ManyKeys ?ks)) ?w)"
      by (simp only: same)
    also have "\<dots> = run_task fails this (TRedisDelete (ManyKeys ?ks)) ?w"
      by (rule settle_spawned)
    finally have step: "settle fails this ?i (run_task fails this TKeysThen w)
                          = run_task fails this (TRedisDelete (ManyKeys ?ks)) ?w" .
    have "redis (run_task fails this (TRedisDelete (ManyKeys ?ks)) ?w)
            = [e \<leftarrow> redis ?w. fst e \<notin> set ?ks]"
      using del by (rule run_redis_delete_many)
    then have "redis (settle fails this ?i (run_task fails this TKeysThen w))
                 = [e \<leftarrow> redis w. fst e \<notin> set ?ks]"
      by (simp only: step cache)
    then show ?thesis
      using removed by (simp only: first)
  qed
qed

section \<open>The read path\<close>

text \<open>Whatever non-empty value the cache holds for a key, \<^verbatim>\<open>get\<close> answers with the key.\<close>

lemma get_cache_hit:
  "\<not> fails (GET k) \<Longrightarrow> map_of (redis w) k = Some (v, ttl) \<Longrightarrow> v \<noteq> [] \<Longrightarrow>
   fst (facade_get fails this k w) = Inr (Some k)"
  by (simp add: get_defs)

text \<open>
  C1. On a cache hit, \<^verbatim>\<open>get\<close> is to return the value that the cache holds for the key.
  The code returns the key it was asked for: with \<open>alice\<close> cached (and stored) under
  \<open>user:1\<close>, \<^verbatim>\<open>get("user:1")\<close> resolves to \<open>user:1\<close>.
\<close>

theorem get_cache_hit_returns_key:
  "map_of (redis (empty_world\<lparr>table := [(''user:1'', ''alice'')],
                              redis := [(''user:1'', (''alice'', Some 3600))]\<rparr>)) ''user:1''
     = Some (''alice'', Some 3600)
   \<and> fst (facade_get no_failure default_db ''user:1''
            (empty_world\<lparr>table := [(''user:1'', ''alice'')],
                         redis := [(''user:1'', (''alice'', Some 3600))]\<rparr>))
     = Inr (Some ''user:1'')"
  by (simp add: facade_get_def redis_get_def client_get_def no_failure_def empty_world_def
      emit_def truthy_str_def)

section \<open>The write path\<close>

text \<open>
  C4, as the code has it. Within a \<^verbatim>\<open>set\<close> or \<^verbatim>\<open>delete\<close> call the durable-store step
  is started before the cache step, and neither is awaited: the call returns with both
  steps in flight and with neither store changed.
\<close>

theorem set_and_delete_return_with_both_steps_pending:
  "pending (snd (facade_set this k v w))
     = pending w @ [TSqlSet k v, TRedisSet k v (Some (defaultExpire this))]
   \<and> table (snd (facade_set this k v w)) = table w
   \<and> redis (snd (facade_set this k v w)) = redis w
   \<and> pending (snd (facade_delete this k w))
     = pending w @ [TSqlDelete k, TRedisDelete (OneKey k)]
   \<and> table (snd (facade_delete this k w)) = table w
   \<and> redis (snd (facade_delete this k w)) = redis w"
  by (simp add: facade_set_def facade_delete_def spawn_def)

text \<open>
  C4 as stated fails: when \<^verbatim>\<open>set("k", "v")\<close> has started its cache step, the durable
  write has not completed (it is still pending and the table is empty); and if the cache
  answers first, the cache holds \<open>v\<close> while the table does not.
\<close>

theorem cache_ahead_of_durable_store:
  "pending (snd (facade_set default_db ''k'' ''v'' empty_world))
     = [TSqlSet ''k'' ''v'', TRedisSet ''k'' ''v'' (Some 3600)]
   \<and> table (snd (facade_set default_db ''k'' ''v'' empty_world)) = []
   \<and> map_of (redis (settle no_failure default_db 1
                      (snd (facade_set default_db ''k'' ''v'' empty_world)))) ''k''
     = Some (''v'', Some 3600)
   \<and> map_of (table (settle no_failure default_db 1
                      (snd (facade_set default_db ''k'' ''v'' empty_world)))) ''k''
     = None
   \<and> pending (settle no_failure default_db 1
                 (snd (facade_set default_db ''k'' ''v'' empty_world)))
     = [TSqlSet ''k'' ''v'']"
  by (simp add: facade_set_def task_defs default_db_def empty_world_def no_failure_def Let_def)

text \<open>
  C3, as the code has it. The cache write of \<^verbatim>\<open>set(k, v)\<close> is started whether or not the
  durable write fails: when the durable write fails and the cache accepts the \<^verbatim>\<open>SET\<close>,
  the cache holds \<open>v\<close> for \<open>k\<close> afterwards, the table is unchanged, and the failure is
  the rejection of a promise that nobody awaits. The one exception is a negative default
  time to live whose \<^verbatim>\<open>EXPIRE\<close> goes through as well: the cache then removes the entry
  it has just written.
\<close>

theorem cache_written_despite_durable_failure:
  assumes "fails (UPSERT k v)" and "\<not> fails (SET k v)" and "pending w = []"
  shows "map_option fst
           (map_of (redis (settle_all fails this 2 (snd (facade_set this k v w)))) k)
           = (if defaultExpire this < 0 \<and> \<not> fails (EXPIRE k (defaultExpire this))
              then None else Some v)
         \<and> table (settle_all fails this 2 (snd (facade_set this k v w))) = table w
         \<and> unhandled (settle_all fails this 2 (snd (facade_set this k v w)))
             = unhandled w @ [Failed (UPSERT k v)]
         \<and> pending (settle_all fails this 2 (snd (facade_set this k v w))) = []"
proof -
  let ?w1 = "w\<lparr>unhandled := unhandled w @ [Failed (UPSERT k v)], pending := []\<rparr>"
  have run: "settle_all fails this 2 (snd (facade_set this k v w))
               = run_task fails this (TRedisSet k v (Some (defaultExpire this))) ?w1"
    using assms(1,3)
    by (simp add: numeral_2_eq_2 facade_set_def settle_def spawn_def unawaited_failures
        reject_def)
  have cache: "map_option fst
                 (map_of (redis (run_task fails this
                                   (TRedisSet k v (Some (defaultExpire this))) ?w1)) k)
                 = (if defaultExpire this < 0 \<and> \<not> fails (EXPIRE k (defaultExpire this))
                    then None else Some v)"
    using assms(2) by (rule run_redis_set_value)
  have rest: "table (run_task fails this (TRedisSet k v (Some (defaultExpire this))) ?w1)
                = table w
              \<and> unhandled (run_task fails this
                              (TRedisSet k v (Some (defaultExpire this))) ?w1)
                = unhandled w @ [Failed (UPSERT k v)]
              \<and> pending (run_task fails this
                            (TRedisSet k v (Some (defaultExpire this))) ?w1) = []"
    using assms(2,3)
    by (simp add: run_task_def detach_def redis_set_def client_set_def client_expire_def
        effect_defs Let_def)
  show ?thesis
    using cache rest by (simp only: run simp_thms)
qed

theorem cache_written_despite_durable_failure_witness:
  "map_option fst
     (map_of (redis (settle_all (only (UPSERT ''k'' ''v'')) default_db 2
                      (snd (facade_set default_db ''k'' ''v'' empty_world)))) ''k'') = Some ''v''
   \<and> table (settle_all (only (UPSERT ''k'' ''v'')) default_db 2
               (snd (facade_set default_db ''k'' ''v'' empty_world))) = []
   \<and> map_option fst
       (map_of (redis (settle_all (only (UPSERT ''k'' ''v'')) negative_expire_db 2
                        (snd (facade_set negative_expire_db ''k'' ''v'' empty_world)))) ''k'')
     = None"
  using cache_written_despite_durable_failure
      [of "only (UPSERT ''k'' ''v'')" "''k''" "''v''" empty_world default_db]
    cache_written_despite_durable_failure
      [of "only (UPSERT ''k'' ''v'')" "''k''" "''v''" empty_world negative_expire_db]
  by (simp add: only_def empty_world_def default_db_def negative_expire_db_def)

text \<open>
  C3 as stated fails: the durable write of \<^verbatim>\<open>set("k", "v")\<close> fails, the call resolves
  all the same, and afterwards the cache holds \<open>v\<close> for \<open>k\<close> and the table has no row
  for \<open>k\<close>.
\<close>

theorem durable_failure_counterexample:
  "fst (facade_set default_db ''k'' ''v'' empty_world) = Inr ()
   \<and> map_option fst
       (map_of (redis (settle_all (only (UPSERT ''k'' ''v'')) default_db 2
                        (snd (facade_set default_db ''k'' ''v'' empty_world)))) ''k'')
     = Some ''v''
   \<and> map_of (table (settle_all (only (UPSERT ''k'' ''v'')) default_db 2
                 (snd (facade_set default_db ''k'' ''v'' empty_world)))) ''k''
     = None
   \<and> unhandled (settle_all (only (UPSERT ''k'' ''v'')) default_db 2
                 (snd (facade_set default_db ''k'' ''v'' empty_world)))
     = [Failed (UPSERT ''k'' ''v'')]"
  by (simp add: numeral_2_eq_2 facade_set_def task_defs default_db_def empty_world_def
      only_def Let_def)

section \<open>Reading back what was written\<close>

text \<open>
  C2, as the code has it, for the values that \<^verbatim>\<open>get\<close> can tell from absence. For every
  key \<open>k\<close> and non-empty value \<open>v\<close>: once the durable write of \<^verbatim>\<open>set(k, v)\<close> has
  succeeded, a \<^verbatim>\<open>get(k)\<close> that finds the cache cleared resolves to \<open>v\<close>, read from the
  table.
\<close>

theorem get_after_set_from_durable_store:
  assumes "\<not> fails (UPSERT k v)" and "\<not> fails (SELECT_VALUE k)" and "v \<noteq> []"
    and "pending w = []"
  shows "fst (facade_get fails this k
                ((settle_all fails this 2 (snd (facade_set this k v w)))\<lparr>redis := []\<rparr>))
           = Inr (Some v)"
proof -
  let ?w = "(settle_all fails this 2 (snd (facade_set this k v w)))\<lparr>redis := []\<rparr>"
  have "map_of (table ?w) k = Some v"
    using assms table_after_set [of fails k v w this] by simp
  moreover have "map_of (redis ?w) k = None"
    by simp
  ultimately show ?thesis
    using assms get_cache_miss [of ?w k v fails this] by simp
qed

theorem get_after_set_from_durable_store_witness:
  "fst (facade_get no_failure default_db ''k''
          ((settle_all no_failure default_db 2
              (snd (facade_set default_db ''k'' ''v'' empty_world)))\<lparr>redis := []\<rparr>))
     = Inr (Some ''v'')"
  using get_after_set_from_durable_store [of no_failure "''k''" "''v''" empty_world default_db]
  by (simp add: no_failure_def empty_world_def)

text \<open>
  C2 as stated fails twice. While the cache still holds the entry written by
  \<^verbatim>\<open>set("k", "v")\<close>, \<^verbatim>\<open>get("k")\<close> resolves to \<open>k\<close>. And after \<^verbatim>\<open>set("k", "")\<close>, with
  the cache cleared, \<^verbatim>\<open>get("k")\<close> resolves to \<^verbatim>\<open>null\<close>: the empty string is falsy.
\<close>

theorem get_after_set_counterexample:
  "fst (facade_get no_failure default_db ''k''
          (settle_all no_failure default_db 2
             (snd (facade_set default_db ''k'' ''v'' empty_world))))
     = Inr (Some ''k'')
   \<and> fst (facade_get no_failure default_db ''k''
            ((settle_all no_failure default_db 2
                (snd (facade_set default_db ''k'' [] empty_world)))\<lparr>redis := []\<rparr>))
     = Inr None"
  by (simp add: numeral_2_eq_2 facade_set_def get_defs task_defs default_db_def
      empty_world_def no_failure_def Let_def)

section \<open>Read-through\<close>

text \<open>
  C7, as the code has it. For every key \<open>k\<close> that the cache does not hold and for which
  the durable store has a non-empty value \<open>v\<close>, \<^verbatim>\<open>get(k)\<close> resolves to \<open>v\<close> and starts
  a cache write of \<open>v\<close> under \<open>k\<close> with the default time to live. When that write goes
  through and the time to live is positive, the cache holds \<open>v\<close> with that time to
  live; when it is negative, the cache has removed the entry again. The default is 3600
  seconds unless \<^verbatim>\<open>config.defaultExpire\<close> is a number other than 0.
\<close>

theorem read_through_repopulates:
  assumes "constructor redisURI sqlURI' cfg w0 = Inr (this, w1)"
    and "map_of (redis w) k = None" and "map_of (table w) k = Some v" and "v \<noteq> []"
    and "\<not> fails (SELECT_VALUE k)"
  shows "fst (facade_get fails this k w) = Inr (Some v)
         \<and> pending (snd (facade_get fails this k w))
             = pending w @ [TRedisSet k v (Some (defaultExpire this))]
         \<and> (\<not> fails (SET k v) \<and> \<not> fails (EXPIRE k (defaultExpire this)) \<longrightarrow>
              map_of (redis (settle fails this (length (pending w))
                               (snd (facade_get fails this k w)))) k
                = (if 0 < defaultExpire this then Some (v, Some (defaultExpire this))
                   else None))
         \<and> defaultExpire this =
             (case cfg of
                None \<Rightarrow> 3600
              | Some c \<Rightarrow> (case cfg_defaultExpire c of
                             None \<Rightarrow> 3600
                           | Some n \<Rightarrow> if n = 0 then 3600 else n))"
proof -
  have ttl: "defaultExpire this \<noteq> 0"
    using assms(1) by (rule constructor_defaultExpire_nonzero)
  have res: "fst (facade_get fails this k w) = Inr (Some v)"
    using assms by (simp add: get_cache_miss)
  have pend: "pending (snd (facade_get fails this k w))
                = pending w @ [TRedisSet k v (Some (defaultExpire this))]"
    using assms by (simp add: get_cache_miss effect_defs)
  have entry: "\<not> fails (SET k v) \<and> \<not> fails (EXPIRE k (defaultExpire this)) \<longrightarrow>
          map_of (redis (settle fails this (length (pending w))
                           (snd (facade_get fails this k w)))) k
            = (if 0 < defaultExpire this then Some (v, Some (defaultExpire this))
               else None)"
    using assms ttl by (simp add: settle_get_cache_miss run_redis_set_entry)
  show ?thesis
    using res pend entry constructor_defaultExpire [OF assms(1)] by simp
qed

theorem read_through_repopulates_witness:
  "fst (facade_get no_failure default_db ''k'' (empty_world\<lparr>table := [(''k'', ''v'')]\<rparr>))
     = Inr (Some ''v'')
   \<and> map_of (redis (settle no_failure default_db 0
                      (snd (facade_get no_failure default_db ''k''
                              (empty_world\<lparr>table := [(''k'', ''v'')]\<rparr>))))) ''k''
     = Some (''v'', Some 3600)
   \<and> fst (facade_get no_failure negative_expire_db ''k''
            (empty_world\<lparr>table := [(''k'', ''v'')]\<rparr>))
     = Inr (Some ''v'')
   \<and> map_of (redis (settle no_failure negative_expire_db 0
                      (snd (facade_get no_failure negative_expire_db ''k''
                              (empty_world\<lparr>table := [(''k'', ''v'')]\<rparr>))))) ''k''
     = None"
  using read_through_repopulates
    [of "Some ''redis://cache''" "Some ''mysql://store''" None empty_world default_db
        "spawn TInit empty_world" "empty_world\<lparr>table := [(''k'', ''v'')]\<rparr>" "''k''" "''v''"
        no_failure]
    read_through_repopulates
    [of "Some ''redis://cache''" "Some ''mysql://store''" "Some negative_expire_config"
        empty_world negative_expire_db
        "spawn TInit empty_world" "empty_world\<lparr>table := [(''k'', ''v'')]\<rparr>" "''k''" "''v''"
        no_failure]
    constructor_default [of empty_world] constructor_negative_expire [of empty_world]
  by (simp add: no_failure_def empty_world_def default_db_def negative_expire_db_def)

text \<open>
  C7 as stated fails for the empty string: with the cache empty and the row
  \<open>(k, '''')\<close> in the table, \<^verbatim>\<open>get("k")\<close> resolves to \<^verbatim>\<open>null\<close> and starts no cache
  write.
\<close>

theorem get_empty_value_counterexample:
  "map_of (redis (empty_world\<lparr>table := [(''k'', [])]\<rparr>)) ''k'' = None
   \<and> map_of (table (empty_world\<lparr>table := [(''k'', [])]\<rparr>)) ''k'' = Some []
   \<and> fst (facade_get no_failure default_db ''k'' (empty_world\<lparr>table := [(''k'', [])]\<rparr>))
     = Inr None
   \<and> pending (snd (facade_get no_failure default_db ''k''
                      (empty_world\<lparr>table := [(''k'', [])]\<rparr>))) = []"
  by (simp add: get_defs effect_defs no_failure_def empty_world_def Let_def)

section \<open>Errors of a single request\<close>

text \<open>
  C5, as the code has it. A failing cache read or cache write (the \<^verbatim>\<open>SET\<close> or the
  \<^verbatim>\<open>EXPIRE\<close>) is caught in the cache adapter, logged and turned into \<^verbatim>\<open>null\<close> or
  \<^verbatim>\<open>false\<close>: the cache adapter's \<^verbatim>\<open>get\<close> and \<^verbatim>\<open>set\<close> never reject, and \<^verbatim>\<open>get\<close> goes on
  to the durable store. \<^verbatim>\<open>set\<close> and \<^verbatim>\<open>delete\<close> never raise to their caller. A failing
  read of the durable store is not caught: it rejects \<^verbatim>\<open>get\<close>. A failing write or delete
  on the durable store and a failing delete on the cache are not caught either: nobody
  awaits them, so they end as unhandled rejections.
\<close>

theorem adapter_errors_by_tier:
  "(fails (GET k) \<longrightarrow> redis_get fails k w = (Inr None, logger_error (Failed (GET k)) w))
   \<and> (fails (SET k v) \<longrightarrow>
        redis_set fails k v expire w = (Inr False, logger_error (Failed (SET k v)) w))
   \<and> (\<not> fails (SET k v) \<and> n \<noteq> 0 \<and> fails (EXPIRE k n) \<longrightarrow>
        fst (redis_set fails k v (Some n) w) = Inr False
        \<and> logged (snd (redis_set fails k v (Some n) w))
            = logged w @ [LogError (Failed (EXPIRE k n))])
   \<and> (\<exists>r. fst (redis_get fails k w) = Inr r)
   \<and> (\<exists>b. fst (redis_set fails k v expire w) = Inr b)
   \<and> (fails (GET k) \<and> \<not> fails (SELECT_VALUE k) \<longrightarrow>
        (\<exists>r. fst (facade_get fails this k w) = Inr r))
   \<and> fst (facade_set this k v w) = Inr ()
   \<and> fst (facade_delete this k w) = Inr ()
   \<and> (fails (SELECT_VALUE k) \<and> map_of (redis w) k = None \<longrightarrow>
        fst (facade_get fails this k w) = Inl (Failed (SELECT_VALUE k)))
   \<and> (fails (UPSERT k v) \<longrightarrow>
        run_task fails this (TSqlSet k v) w = reject (Failed (UPSERT k v)) w)
   \<and> (fails (DELETE_ROW k) \<longrightarrow>
        run_task fails this (TSqlDelete k) w = reject (Failed (DELETE_ROW k)) w)
   \<and> (fails (DEL [k]) \<longrightarrow>
        run_task fails this (TRedisDelete (OneKey k)) w = reject (Failed (DEL [k])) w)"
  using redis_get_caught [of fails k w] redis_set_caught [of fails k v expire w]
    redis_expire_caught [of fails k v n w]
    redis_adapter_resolves(1) [of fails k w] redis_adapter_resolves(2) [of fails k v expire w]
    get_survives_cache_failure [of fails k this w]
    get_rejects_on_durable_failure [of fails k w this]
  by (simp add: facade_set_def facade_delete_def unawaited_failures)

theorem adapter_errors_by_tier_witness:
  "redis_get all_fail ''k'' empty_world = (Inr None, logger_error (Failed (GET ''k'')) empty_world)
   \<and> redis_set all_fail ''k'' ''v'' (Some 3600) empty_world
       = (Inr False, logger_error (Failed (SET ''k'' ''v'')) empty_world)
   \<and> fst (redis_set (only (EXPIRE ''k'' 3600)) ''k'' ''v'' (Some 3600) empty_world) = Inr False
   \<and> logged (snd (redis_set (only (EXPIRE ''k'' 3600)) ''k'' ''v'' (Some 3600) empty_world))
       = [LogError (Failed (EXPIRE ''k'' 3600))]
   \<and> (\<exists>r. fst (facade_get (only (GET ''k'')) default_db ''k'' empty_world) = Inr r)
   \<and> fst (facade_get all_fail default_db ''k'' empty_world) = Inl (Failed (SELECT_VALUE ''k''))
   \<and> unhandled (run_task all_fail default_db (TSqlSet ''k'' ''v'') empty_world)
       = [Failed (UPSERT ''k'' ''v'')]
   \<and> unhandled (run_task all_fail default_db (TSqlDelete ''k'') empty_world)
       = [Failed (DELETE_ROW ''k'')]
   \<and> unhandled (run_task all_fail default_db (TRedisDelete (OneKey ''k'')) empty_world)
       = [Failed (DEL [''k''])]"
  using adapter_errors_by_tier
      [where fails = all_fail and k = "''k''" and w = empty_world and v = "''v''"
         and expire = "Some 3600" and n = 3600 and this = default_db]
    adapter_errors_by_tier
      [where fails = "only (GET ''k'')" and k = "''k''" and w = empty_world and v = "''v''"
         and expire = "Some 3600" and n = 3600 and this = default_db]
    adapter_errors_by_tier
      [where fails = "only (EXPIRE ''k'' 3600)" and k = "''k''" and w = empty_world
         and v = "''v''" and expire = "Some 3600" and n = 3600 and this = default_db]
  by (simp add: all_fail_def only_def empty_world_def reject_def)

text \<open>
  C5 as stated fails: when the cache misses and the read of the durable store fails,
  \<^verbatim>\<open>get("k")\<close> rejects with that error.
\<close>

theorem durable_read_failure_counterexample:
  "fst (facade_get (only (SELECT_VALUE ''k'')) default_db ''k'' empty_world)
     = Inl (Failed (SELECT_VALUE ''k''))"
  by (simp add: get_defs effect_defs only_def empty_world_def)

section \<open>Construction\<close>

text \<open>
  C6, as the code has it. The constructor raises at once when \<^verbatim>\<open>redisURI\<close> or
  \<^verbatim>\<open>sqlURI\<close> is absent or the empty string (the cache address is looked at first); when
  both are present and not empty it does not raise.
\<close>

theorem constructor_raises_iff_address_missing_or_empty:
  "(redisURI = None \<or> redisURI = Some [] \<longrightarrow>
      constructor redisURI sqlURI' cfg w
        = Inl (KeystoreError ''Keystore Error: No REDIS URI found!''))
   \<and> (redisURI \<noteq> None \<and> redisURI \<noteq> Some [] \<and> (sqlURI' = None \<or> sqlURI' = Some []) \<longrightarrow>
      constructor redisURI sqlURI' cfg w
        = Inl (KeystoreError ''Keystore Error: No SQL URI found!''))
   \<and> (redisURI \<noteq> None \<and> redisURI \<noteq> Some [] \<and> sqlURI' \<noteq> None \<and> sqlURI' \<noteq> Some [] \<longrightarrow>
      (\<exists>this. constructor redisURI sqlURI' cfg w = Inr (this, spawn TInit w)))"
  by (auto simp add: constructor_def truthy_str_def Let_def split: option.splits)

theorem constructor_raises_iff_address_missing_or_empty_witness:
  "constructor None (Some ''mysql://store'') None empty_world
     = Inl (KeystoreError ''Keystore Error: No REDIS URI found!'')
   \<and> constructor (Some ''redis://cache'') None None empty_world
     = Inl (KeystoreError ''Keystore Error: No SQL URI found!'')
   \<and> (\<exists>this. constructor (Some ''redis://cache'') (Some ''mysql://store'') None empty_world
         = Inr (this, spawn TInit empty_world))"
  using constructor_raises_iff_address_missing_or_empty
      [of None "Some ''mysql://store''" None empty_world]
    constructor_raises_iff_address_missing_or_empty
      [of "Some ''redis://cache''" None None empty_world]
    constructor_raises_iff_address_missing_or_empty
      [of "Some ''redis://cache''" "Some ''mysql://store''" None empty_world]
  by simp

text \<open>
  C6 as stated fails: with both addresses present, the cache address being the empty
  string, the constructor raises the error of a missing address.
\<close>

theorem constructor_empty_address_counterexample:
  "constructor (Some []) (Some ''mysql://store'') None empty_world
     = Inl (KeystoreError ''Keystore Error: No REDIS URI found!'')"
  by (simp add: constructor_def truthy_str_def Let_def)

text \<open>
  C10. A keystore constructed with \<^verbatim>\<open>defaultExpire: 0\<close> has a default time to live of
  3600 seconds: \<^verbatim>\<open>set\<close> and the repopulation in \<^verbatim>\<open>get\<close> start their cache write with
  \<^verbatim>\<open>expire: 3600\<close>, and when that write goes through, the entry expires in 3600 seconds
  rather than never.
\<close>

theorem zero_defaultExpire_falls_back:
  assumes "constructor redisURI sqlURI' (Some cfg) w0 = Inr (this, w1)"
    and "cfg_defaultExpire cfg = Some 0"
  shows "defaultExpire this = 3600
         \<and> pending (snd (facade_set this k v w))
             = pending w @ [TSqlSet k v, TRedisSet k v (Some 3600)]
         \<and> (\<not> fails (SET k v) \<and> \<not> fails (EXPIRE k 3600) \<longrightarrow>
              map_of (redis (settle fails this (Suc (length (pending w)))
                               (snd (facade_set this k v w)))) k
                = Some (v, Some 3600))
         \<and> (map_of (redis w) k = None \<and> map_of (table w) k = Some v \<and> v \<noteq> []
              \<and> \<not> fails (SELECT_VALUE k) \<longrightarrow>
              pending (snd (facade_get fails this k w))
                = pending w @ [TRedisSet k v (Some 3600)])
         \<and> (map_of (redis w) k = None \<and> map_of (table w) k = Some v \<and> v \<noteq> []
              \<and> \<not> fails (SELECT_VALUE k) \<and> \<not> fails (SET k v) \<and> \<not> fails (EXPIRE k 3600) \<longrightarrow>
              map_of (redis (settle fails this (length (pending w))
                               (snd (facade_get fails this k w)))) k
                = Some (v, Some 3600))"
proof -
  have ttl: "defaultExpire this = 3600"
    using constructor_defaultExpire [OF assms(1)] assms(2) by simp
  have set_pending: "pending (snd (facade_set this k v w))
             = pending w @ [TSqlSet k v, TRedisSet k v (Some 3600)]"
    by (simp add: facade_set_def spawn_def ttl)
  have "settle fails this (Suc (length (pending w))) (snd (facade_set this k v w))
          = run_task fails this (TRedisSet k v (Some 3600)) (spawn (TSqlSet k v) w)"
    by (simp add: facade_set_def settle_def spawn_def ttl nth_append)
  then have set_entry: "\<not> fails (SET k v) \<and> \<not> fails (EXPIRE k 3600) \<longrightarrow>
              map_of (redis (settle fails this (Suc (length (pending w)))
                               (snd (facade_set this k v w)))) k
                = Some (v, Some 3600)"
    by (simp add: run_redis_set_entry)
  have get_pending: "map_of (redis w) k = None \<and> map_of (table w) k = Some v \<and> v \<noteq> []
              \<and> \<not> fails (SELECT_VALUE k) \<longrightarrow>
              pending (snd (facade_get fails this k w))
                = pending w @ [TRedisSet k v (Some 3600)]"
    by (simp add: get_cache_miss effect_defs ttl)
  have get_entry: "map_of (redis w) k = None \<and> map_of (table w) k = Some v \<and> v \<noteq> []
              \<and> \<not> fails (SELECT_VALUE k) \<and> \<not> fails (SET k v) \<and> \<not> fails (EXPIRE k 3600) \<longrightarrow>
              map_of (redis (settle fails this (length (pending w))
                               (snd (facade_get fails this k w)))) k
                = Some (v, Some 3600)"
    by (simp add: settle_get_cache_miss run_redis_set_entry ttl)
  show ?thesis
    using ttl set_pending set_entry get_pending get_entry by blast
qed

theorem zero_defaultExpire_falls_back_witness:
  "constructor (Some ''redis://cache'') (Some ''mysql://store'') (Some zero_expire_config)
       empty_world
     = Inr (default_db, spawn TInit empty_world)
   \<and> cfg_defaultExpire zero_expire_config = Some 0
   \<and> defaultExpire default_db = 3600
   \<and> map_of (redis (settle no_failure default_db 1
                      (snd (facade_set default_db ''k'' ''v'' empty_world)))) ''k''
     = Some (''v'', Some 3600)
   \<and> map_of (redis (settle no_failure default_db 0
                      (snd (facade_get no_failure default_db ''k''
                              (empty_world\<lparr>table := [(''k'', ''v'')]\<rparr>))))) ''k''
     = Some (''v'', Some 3600)"
  using zero_defaultExpire_falls_back
      [of "Some ''redis://cache''" "Some ''mysql://store''" zero_expire_config empty_world
          default_db "spawn TInit empty_world" "''k''" "''v''" empty_world no_failure]
    zero_defaultExpire_falls_back
      [of "Some ''redis://cache''" "Some ''mysql://store''" zero_expire_config empty_world
          default_db "spawn TInit empty_world" "''k''" "''v''"
          "empty_world\<lparr>table := [(''k'', ''v'')]\<rparr>" no_failure]
    constructor_zero_expire [of empty_world]
  by (simp add: no_failure_def empty_world_def zero_expire_config_def)

section \<open>The temporary flush\<close>

text \<open>
  C8. When the temporary flush is switched on (an interval other than 0 and -1),
  \<^verbatim>\<open>autoTempFlush\<close> sets a timer for \<^verbatim>\<open>flush("TEMP")\<close>. One tick of that timer, followed
  until nothing it started is left, removes from the cache exactly the entries whose key
  starts with \<open>temp:\<close>: every other entry is still there, unchanged. This holds for every
  cache, as long as the cache answers the two requests of the flush.
\<close>

theorem temp_flush_removes_exactly_temp_keys:
  assumes "redisAutoTempFlushInterval this = Some n" and "n \<noteq> 0" and "n \<noteq> - 1"
    and "\<not> fails (KEYS ''temp:*'')"
    and "\<not> fails (DEL [k \<leftarrow> map fst (redis w). prefix ''temp:'' k])"
  shows "timers (autoTempFlush this w) = timers w @ [(n, FlushTEMP)]
         \<and> redis (settle fails this (length (pending w))
                  (settle fails this (length (pending w))
                     (settle fails this (length (pending w))
                        (fire (length (timers w)) (autoTempFlush this w)))))
           = [e \<leftarrow> redis w. \<not> prefix ''temp:'' (fst e)]"
proof -
  let ?w1 = "autoTempFlush this w"
  have w1: "?w1 = w\<lparr>timers := timers w @ [(n, FlushTEMP)]\<rparr>"
    using assms by (simp add: autoTempFlush_def)
  have "settle fails this (length (pending w)) (fire (length (timers w)) ?w1)
          = run_task fails this (TRedisFlush FlushTEMP) ?w1"
    by (simp add: w1 fire_def settle_def spawn_def)
  moreover have "redis ?w1 = redis w" and "pending ?w1 = pending w"
    by (simp_all add: w1)
  ultimately show ?thesis
    using assms temp_flush_settled [of fails ?w1 this] by (simp add: w1)
qed

theorem temp_flush_removes_exactly_temp_keys_witness:
  "redis (settle no_failure temp_db 0 (settle no_failure temp_db 0 (settle no_failure temp_db 0
            (fire 0 (autoTempFlush temp_db
               (empty_world\<lparr>redis := [(''temp:a'', (''1'', None)), (''temp:b'', (''2'', Some 5)),
                                       (''other:c'', (''3'', None))]\<rparr>))))))
     = [(''other:c'', (''3'', None))]"
  using temp_flush_removes_exactly_temp_keys
    [of temp_db 3600 no_failure
        "empty_world\<lparr>redis := [(''temp:a'', (''1'', None)), (''temp:b'', (''2'', Some 5)),
                                (''other:c'', (''3'', None))]\<rparr>"]
  by (simp add: temp_db_def default_db_def no_failure_def empty_world_def)

section \<open>Events\<close>

text \<open>
  C9, as the code has it. Every successful \<^verbatim>\<open>get\<close> and \<^verbatim>\<open>set\<close> against either store
  emits an event with the operation, the key, the value (\<^verbatim>\<open>null\<close> when there is none)
  and the store; a successful \<^verbatim>\<open>delete\<close> against the durable store emits one with the
  operation, the key and the store; a \<^verbatim>\<open>delete\<close> against the cache emits none.
\<close>

theorem events_of_successful_operations:
  "(fst (sql_get fails k w) = Inr r \<longrightarrow>
      emitted (snd (sql_get fails k w)) = emitted w @ [EvGet k r SQL])
   \<and> (fst (sql_set fails k v w) = Inr u \<longrightarrow>
      emitted (snd (sql_set fails k v w)) = emitted w @ [EvSet k v SQL])
   \<and> (fst (sql_delete fails k w) = Inr u \<longrightarrow>
      emitted (snd (sql_delete fails k w)) = emitted w @ [EvDelete k SQL])
   \<and> (\<not> fails (GET k) \<and> fst (redis_get fails k w) = Inr r \<longrightarrow>
      emitted (snd (redis_get fails k w)) = emitted w @ [EvGet k r REDIS])
   \<and> (fst (redis_set fails k v expire w) = Inr True \<longrightarrow>
      emitted (snd (redis_set fails k v expire w)) = emitted w @ [EvSet k v REDIS])
   \<and> emitted (snd (redis_delete fails keys w)) = emitted w"
proof -
  have "fst (sql_get fails k w) = Inr r \<longrightarrow>
      emitted (snd (sql_get fails k w)) = emitted w @ [EvGet k r SQL]"
    by (auto simp add: sql_get_def query_select_value_def emit_def Let_def)
  moreover have "fst (sql_set fails k v w) = Inr u \<longrightarrow>
      emitted (snd (sql_set fails k v w)) = emitted w @ [EvSet k v SQL]"
    by (simp add: sql_set_def query_upsert_def emit_def)
  moreover have "fst (sql_delete fails k w) = Inr u \<longrightarrow>
      emitted (snd (sql_delete fails k w)) = emitted w @ [EvDelete k SQL]"
    by (simp add: sql_delete_def query_delete_def emit_def)
  moreover have "\<not> fails (GET k) \<and> fst (redis_get fails k w) = Inr r \<longrightarrow>
      emitted (snd (redis_get fails k w)) = emitted w @ [EvGet k r REDIS]"
    by (auto simp add: redis_get_def client_get_def emit_def)
  moreover have "fst (redis_set fails k v expire w) = Inr True \<longrightarrow>
      emitted (snd (redis_set fails k v expire w)) = emitted w @ [EvSet k v REDIS]"
    by (auto simp add: redis_set_def client_set_def client_expire_def emit_def logger_error_def
        Let_def split: option.splits)
  moreover have "emitted (snd (redis_delete fails keys w)) = emitted w"
    by (simp add: redis_delete_def client_del_def split: keys_arg.splits)
  ultimately show ?thesis by blast
qed

theorem events_of_successful_operations_witness:
  "emitted (snd (sql_get no_failure ''k'' (empty_world\<lparr>table := [(''k'', ''v'')]\<rparr>)))
     = [EvGet ''k'' (Some ''v'') SQL]
   \<and> emitted (snd (sql_set no_failure ''k'' ''v'' (empty_world\<lparr>table := [(''k'', ''v'')]\<rparr>)))
     = [EvSet ''k'' ''v'' SQL]
   \<and> emitted (snd (sql_delete no_failure ''k'' (empty_world\<lparr>table := [(''k'', ''v'')]\<rparr>)))
     = [EvDelete ''k'' SQL]
   \<and> emitted (snd (redis_get no_failure ''k'' (empty_world\<lparr>table := [(''k'', ''v'')]\<rparr>)))
     = [EvGet ''k'' None REDIS]
   \<and> emitted (snd (redis_set no_failure ''k'' ''v'' (Some 3600)
                      (empty_world\<lparr>table := [(''k'', ''v'')]\<rparr>)))
     = [EvSet ''k'' ''v'' REDIS]"
  using events_of_successful_operations
    [of no_failure "''k''" "empty_world\<lparr>table := [(''k'', ''v'')]\<rparr>" "Some ''v''" "''v''" "()"
        "Some 3600"]
    events_of_successful_operations
    [of no_failure "''k''" "empty_world\<lparr>table := [(''k'', ''v'')]\<rparr>" None "''v''" "()"
        "Some 3600"]
  by (simp add: no_failure_def empty_world_def sql_get_def sql_set_def sql_delete_def
      redis_get_def redis_set_def query_select_value_def query_upsert_def query_delete_def
      client_get_def client_set_def client_expire_def Let_def)

text \<open>
  C9 as stated fails: a \<^verbatim>\<open>delete\<close> against the cache removes the key, answers that one
  key was removed, and emits nothing.
\<close>

theorem cache_delete_emits_nothing:
  "fst (redis_delete no_failure (OneKey ''k'') (empty_world\<lparr>redis := [(''k'', (''v'', None))]\<rparr>))
     = Inr 1
   \<and> map_of (redis (snd (redis_delete no_failure (OneKey ''k'')
                      (empty_world\<lparr>redis := [(''k'', (''v'', None))]\<rparr>)))) ''k'' = None
   \<and> emitted (snd (redis_delete no_failure (OneKey ''k'')
                      (empty_world\<lparr>redis := [(''k'', (''v'', None))]\<rparr>))) = []"
  by (simp add: redis_delete_def client_del_def no_failure_def empty_world_def)

end
